theory Spec2Isabelle
  imports Complex_Main
begin

section \<open>Python values, exceptions and tables\<close>

text \<open>
  The values \<open>response.json()\<close> can return, and so the values \<open>generate_dataframe\<close>
  can receive. A dict is an association list in insertion order (a Python dict keeps it
  and has each key once); the keys of a decoded JSON object are strings.
\<close>

datatype pyval =
    PNone
  | PBool bool
  | PInt int
  | PFloat rat
  | PStr string
  | PList "pyval list"
  | PDict "(string \<times> pyval) list"

text \<open>
  The exception classes the program raises or catches, each but \<open>ValueError\<close> by its name:
  \<open>RequestsError\<close> is a class of the requests library, that is
  \<open>requests.exceptions.RequestException\<close> or any subclass of it (\<open>HTTPError\<close>,
  \<open>ConnectionError\<close>, \<open>Timeout\<close>, \<open>MissingSchema\<close>, \<open>SSLError\<close>, \<open>JSONDecodeError\<close> and the
  others); \<open>OtherError\<close> is any other subclass of \<open>Exception\<close>. An exception carries its
  text (\<open>str(e)\<close>) and the two links Python keeps: \<open>__cause__\<close> (set by
  \<open>raise ... from e\<close>) and \<open>__context__\<close> (set whenever an exception is raised inside an
  \<open>except\<close> block).
\<close>

datatype exc_class =
    ValueError
  | RequestsError string
  | OtherError string

datatype exc = Exc (exc_class: exc_class) (exc_str: string)
                   (exc_cause: "exc option") (exc_context: "exc option")

text \<open>\<open>isinstance(e, requests.exceptions.RequestException)\<close>, on the class of \<open>e\<close>.\<close>

fun is_RequestException :: "exc_class \<Rightarrow> bool" where
  "is_RequestException (RequestsError n) = True"
| "is_RequestException ValueError = False"
| "is_RequestException (OtherError n) = False"

text \<open>
  A pandas table: the column labels in order and one row per record, each row holding one
  cell per column. A null cell (pandas' NaN, or a \<open>None\<close> kept in a column of objects: what
  \<open>isna\<close> answers yes to and \<open>to_csv\<close> writes as nothing) is \<open>None\<close>; any other cell is
  \<open>Some\<close> of its value.
\<close>

record dataframe =
  columns :: "string list"
  rows :: "pyval option list list"

text \<open>What \<open>dataframe_to_csv\<close> can be handed as \<open>df\<close>: a table or any other value.\<close>

datatype pyobj = DataFrameObj dataframe | ValueObj pyval

fun isinstance_list :: "pyval \<Rightarrow> bool" where
  "isinstance_list (PList xs) = True"
| "isinstance_list v = False"

fun isinstance_dict :: "pyval \<Rightarrow> bool" where
  "isinstance_dict (PDict kvs) = True"
| "isinstance_dict v = False"

fun isinstance_DataFrame :: "pyobj \<Rightarrow> bool" where
  "isinstance_DataFrame (DataFrameObj d) = True"
| "isinstance_DataFrame (ValueObj v) = False"

fun list_items :: "pyval \<Rightarrow> pyval list" where
  "list_items (PList xs) = xs"
| "list_items v = []"

fun dict_items :: "pyval \<Rightarrow> (string \<times> pyval) list" where
  "dict_items (PDict kvs) = kvs"
| "dict_items v = []"

text \<open>\<open>list(x.keys())\<close> and \<open>row[col] if col in row\<close>.\<close>

definition dict_keys :: "pyval \<Rightarrow> string list" where
  "dict_keys d = map fst (dict_items d)"

definition dict_get :: "pyval \<Rightarrow> string \<Rightarrow> pyval option" where
  "dict_get d k = map_of (dict_items d) k"

section \<open>The table constructor of pandas\<close>

text \<open>
  \<open>pd.DataFrame(trades)\<close> is a call into the pandas library. For a non-empty list of
  dicts the library collects the column labels with \<open>fast_unique_multiple_list_gen\<close>
  (unsorted for dicts): it walks the key lists of the records in order and appends each key
  not seen before. \<open>add_keys\<close> is its inner loop over one key list, \<open>uniques\<close> the list
  built so far.
\<close>

fun add_keys :: "string list \<Rightarrow> string list \<Rightarrow> string list" where
  "add_keys uniques [] = uniques"
| "add_keys uniques (val # buf) =
     add_keys (if val \<in> set uniques then uniques else uniques @ [val]) buf"

fun fast_unique_multiple_list_gen :: "string list \<Rightarrow> string list list \<Rightarrow> string list" where
  "fast_unique_multiple_list_gen uniques [] = uniques"
| "fast_unique_multiple_list_gen uniques (buf # gen) =
     fast_unique_multiple_list_gen (add_keys uniques buf) gen"

text \<open>
  \<open>dicts_to_array\<close> then fills one array slot per record and column: the record's value
  under the column label, or the missing marker where the record lacks the key.
\<close>

definition dicts_to_array :: "pyval list \<Rightarrow> string list \<Rightarrow> pyval option list list" where
  "dicts_to_array dicts cols = map (\<lambda>row. map (\<lambda>col. dict_get row col) cols) dicts"

text \<open>
  Last, pandas converts the array column by column (\<open>convert_object_array\<close>): it infers one
  dtype from all the values of a column and casts each value of the column to it, so that a
  column of ints beside a missing cell becomes \<open>float64\<close> and \<open>2\<close> becomes \<open>2.0\<close>. The
  inference and the cast are the library's and are parameters here; a dtype goes by its name.
  Whatever the dtype, a missing slot and a \<open>None\<close> value both end as a null cell, and every
  other value ends as its cast.
\<close>

record pandas =
  infer_dtype :: "pyval option list \<Rightarrow> string"
  cast :: "string \<Rightarrow> pyval \<Rightarrow> pyval"

definition convert_cell :: "pandas \<Rightarrow> string \<Rightarrow> pyval option \<Rightarrow> pyval option" where
  "convert_cell pd dtype slot =
     (case slot of
        None \<Rightarrow> None
      | Some PNone \<Rightarrow> None
      | Some v \<Rightarrow> Some (cast pd dtype v))"

text \<open>The slots of one column, top to bottom, and the conversion of the whole array.\<close>

definition column_slots :: "pyval list \<Rightarrow> string \<Rightarrow> pyval option list" where
  "column_slots dicts col = map (\<lambda>row. dict_get row col) dicts"

definition convert_object_array ::
  "pandas \<Rightarrow> pyval list \<Rightarrow> string list \<Rightarrow> pyval option list list" where
  "convert_object_array pd dicts cols =
     map (\<lambda>row. map (\<lambda>(col, slot). convert_cell pd (infer_dtype pd (column_slots dicts col)) slot)
                    (zip cols row))
         (dicts_to_array dicts cols)"

text \<open>An empty list takes the library's other path and gives the table with no row and no column.\<close>

definition pd_DataFrame :: "pandas \<Rightarrow> pyval list \<Rightarrow> dataframe" where
  "pd_DataFrame pd data =
     (if data = [] then \<lparr>columns = [], rows = []\<rparr>
      else (let cols = fast_unique_multiple_list_gen [] (map dict_keys data)
            in \<lparr>columns = cols, rows = convert_object_array pd data cols\<rparr>))"

section \<open>The Table Builder\<close>

definition generate_dataframe :: "pandas \<Rightarrow> pyval \<Rightarrow> exc + dataframe" where
  "generate_dataframe pd trades =
     (if \<not> isinstance_list trades then
        Inl (Exc ValueError (''The '' @ [CHR 0x27] @ ''trades'' @ [CHR 0x27] @
                             '' parameter must be a list.'') None None)
      else if \<not> list_all isinstance_dict (list_items trades) then
        Inl (Exc ValueError (''All elements of the '' @ [CHR 0x27] @ ''trades'' @ [CHR 0x27] @
                             '' list must be dictionaries.'') None None)
      else Inr (pd_DataFrame pd (list_items trades)))"

text \<open>
  The order in which keys are first seen in a sequence of keys: the first occurrence of
  each key stays, every later occurrence goes. This is the order the specification asks of
  the columns, written without reference to the library's loop.
\<close>

fun first_seen :: "string list \<Rightarrow> string list" where
  "first_seen [] = []"
| "first_seen (k # ks) = k # filter (\<lambda>x. x \<noteq> k) (first_seen ks)"

text \<open>The input the Table Builder accepts: a list whose elements are all dicts.\<close>

definition list_of_dicts :: "pyval \<Rightarrow> bool" where
  "list_of_dicts v = (case v of PList ds \<Rightarrow> list_all isinstance_dict ds | _ \<Rightarrow> False)"

text \<open>The end-to-end example of the specification.\<close>

definition example_trades :: "pyval list" where
  "example_trades =
     [PDict [(''price'', PStr ''100''), (''qty'', PStr ''1'')],
      PDict [(''price'', PStr ''101''), (''qty'', PStr ''2'')]]"

section \<open>The world outside the program\<close>

text \<open>
  The calendar date \<open>datetime.today()\<close> reads, and \<open>strftime("%Y-%m-%d")\<close> on it: the
  year in four digits, the month and the day in two, padded with zeros.
\<close>

record date =
  year :: nat
  month :: nat
  day :: nat

fun str_nat :: "nat \<Rightarrow> string" where
  "str_nat n = (if n < 10 then [''0123456789'' ! n]
                else str_nat (n div 10) @ [''0123456789'' ! (n mod 10)])"

declare str_nat.simps [simp del]

definition zfill :: "nat \<Rightarrow> string \<Rightarrow> string" where
  "zfill width s = replicate (width - length s) (CHR ''0'') @ s"

definition strftime_Ymd :: "date \<Rightarrow> string" where
  "strftime_Ymd d = zfill 4 (str_nat (year d)) @ ''-'' @ zfill 2 (str_nat (month d))
                    @ ''-'' @ zfill 2 (str_nat (day d))"

text \<open>What \<open>requests.get\<close> hands back: the status line and what \<open>.json()\<close> does on the body.\<close>

record response =
  status_code :: nat
  reason :: string
  url :: string
  json :: "exc + pyval"

text \<open>
  \<open>Response.raise_for_status\<close> of the requests library: an \<open>HTTPError\<close> for a status from
  400 to 599, nothing otherwise.
\<close>

definition raise_for_status :: "response \<Rightarrow> exc option" where
  "raise_for_status r =
     (if 400 \<le> status_code r \<and> status_code r < 500 then
        Some (Exc (RequestsError ''HTTPError'') (str_nat (status_code r) @ '' Client Error: '' @ reason r
                             @ '' for url: '' @ url r) None None)
      else if 500 \<le> status_code r \<and> status_code r < 600 then
        Some (Exc (RequestsError ''HTTPError'') (str_nat (status_code r) @ '' Server Error: '' @ reason r
                             @ '' for url: '' @ url r) None None)
      else None)"

text \<open>
  Everything the program reaches through a library is a field of the world: the clock, the
  local file system (\<open>os.path.isdir\<close>, \<open>os.path.join\<close>, the files by path), the text pandas
  writes for a table with \<open>index=False\<close>, the failure of such a write if there is one (the
  exception, and what is left at the path), standard output and the failure of \<open>print\<close> on a
  line if there is one (a line the stream cannot encode), the exchange behind
  \<open>requests.get\<close>, the requests sent so far, the failure of \<open>boto3.client\<close> and of
  \<open>upload_file\<close> if there is one, the exception the client raises for a local file that is
  not there, and the objects of the remote store by bucket and key.
\<close>

record world =
  today :: date
  os_path_isdir :: "string \<Rightarrow> bool"
  os_path_join :: "string \<Rightarrow> string \<Rightarrow> string"
  to_csv_text :: "dataframe \<Rightarrow> string"
  to_csv_fault :: "dataframe \<Rightarrow> string \<Rightarrow> (exc \<times> string option) option"
  files :: "string \<Rightarrow> string option"
  stdout :: "string list"
  print_fault :: "string \<Rightarrow> exc option"
  requests_get :: "string \<Rightarrow> exc + response"
  requests_sent :: "string list"
  boto3_client_fault :: "string option \<Rightarrow> string option \<Rightarrow> string \<Rightarrow> exc option"
  upload_fault :: "string \<Rightarrow> string \<Rightarrow> string \<Rightarrow> exc option"
  no_such_file :: "string \<Rightarrow> exc"
  s3_objects :: "string \<times> string \<Rightarrow> string option"

text \<open>\<open>print(line)\<close>: the line reaches standard output, or the stream raises and it does not.\<close>

definition print_line :: "string \<Rightarrow> world \<Rightarrow> (exc + unit) \<times> world" where
  "print_line line w =
     (case print_fault w line of
        Some e \<Rightarrow> (Inl e, w)
      | None \<Rightarrow> (Inr (), w\<lparr>stdout := stdout w @ [line]\<rparr>))"

section \<open>The Trade Fetcher\<close>

text \<open>
  One GET; \<open>raise_for_status\<close>; \<open>.json()\<close>. An exception of the \<open>RequestException\<close> family
  raised by any of the three is caught and re-raised as a \<open>ValueError\<close> \<open>from e\<close>; any other
  exception passes through.
\<close>

definition get_api_trades :: "string \<Rightarrow> string \<Rightarrow> world \<Rightarrow> (exc + pyval) \<times> world" where
  "get_api_trades api_url symbol w =
     (let target = api_url @ ''/'' @ symbol @ ''/trades'';
          w' = w\<lparr>requests_sent := requests_sent w @ [target]\<rparr>;
          body = (case requests_get w target of
                    Inl e \<Rightarrow> Inl e
                  | Inr resp \<Rightarrow> (case raise_for_status resp of
                                   Some e \<Rightarrow> Inl e
                                 | None \<Rightarrow> json resp))
      in case body of
           Inr v \<Rightarrow> (Inr v, w')
         | Inl e \<Rightarrow>
             if is_RequestException (exc_class e) then
               (Inl (Exc ValueError (''Error during API request: '' @ exc_str e)
                         (Some e) (Some e)), w')
             else (Inl e, w'))"

section \<open>The Table Persister\<close>

fun the_DataFrame :: "pyobj \<Rightarrow> dataframe" where
  "the_DataFrame (DataFrameObj d) = d"
| "the_DataFrame (ValueObj v) = \<lparr>columns = [], rows = []\<rparr>"

definition archive_filename :: "world \<Rightarrow> string" where
  "archive_filename w = ''api_trades_'' @ strftime_Ymd (today w) @ ''.csv''"

text \<open>
  The write and the \<open>print\<close> after it are both inside the \<open>try\<close>: an exception of either
  is re-raised as a \<open>ValueError\<close> from inside the \<open>except\<close> block, so with the exception as
  its context and no cause. When it is the \<open>print\<close> that fails, the file is already written.
\<close>

definition saving_error :: "string \<Rightarrow> exc \<Rightarrow> exc" where
  "saving_error file_path e =
     Exc ValueError (''Error while saving the data on '' @ [CHR 0x27] @ file_path @ [CHR 0x27]
                     @ '': '' @ exc_str e)
         None (Some e)"

definition dataframe_to_csv :: "pyobj \<Rightarrow> string \<Rightarrow> world \<Rightarrow> (exc + string) \<times> world" where
  "dataframe_to_csv df csv_path w =
     (if \<not> isinstance_DataFrame df then
        (Inl (Exc ValueError (''The '' @ [CHR 0x27] @ ''df'' @ [CHR 0x27]
                              @ '' parameter must be a Pandas DataFrame.'') None None), w)
      else if \<not> os_path_isdir w csv_path then
        (Inl (Exc ValueError (''The path '' @ [CHR 0x27] @ csv_path @ [CHR 0x27]
                              @ '' is not a valid directory.'') None None), w)
      else
        (let filename = archive_filename w;
             file_path = os_path_join w csv_path filename
         in case to_csv_fault w (the_DataFrame df) file_path of
              Some (e, residue) \<Rightarrow>
                (Inl (saving_error file_path e),
                 w\<lparr>files := (files w)(file_path := residue)\<rparr>)
            | None \<Rightarrow>
                (case print_line (''DataFrame successfully saved to '' @ file_path)
                        (w\<lparr>files := (files w)(file_path \<mapsto> to_csv_text w (the_DataFrame df))\<rparr>)
                 of
                   (Inl e, w') \<Rightarrow> (Inl (saving_error file_path e), w')
                 | (Inr u, w') \<Rightarrow> (Inr file_path, w'))))"

section \<open>The Remote Uploader\<close>

text \<open>\<open>s.split(c)\<close> for a one-character separator: never an empty list.\<close>

fun split_chr :: "char \<Rightarrow> string \<Rightarrow> string list" where
  "split_chr c [] = [[]]"
| "split_chr c (x # xs) =
     (if x = c then [] # split_chr c xs
      else (case split_chr c xs of
              [] \<Rightarrow> [[x]]
            | piece # pieces \<Rightarrow> (x # piece) # pieces))"

definition backslash :: char where
  "backslash = CHR 0x5C"

text \<open>
  \<open>upload_file\<close> of the client: it fails as the world says, or for want of the local
  file, or puts the file's content under the key, replacing what was there.
\<close>

definition upload_file :: "world \<Rightarrow> string \<Rightarrow> string \<Rightarrow> string \<Rightarrow> (exc + unit) \<times> world" where
  "upload_file w filename bucket key =
     (case upload_fault w filename bucket key of
        Some e \<Rightarrow> (Inl e, w)
      | None \<Rightarrow>
          (case files w filename of
             None \<Rightarrow> (Inl (no_such_file w filename), w)
           | Some content \<Rightarrow>
               (Inr (), w\<lparr>s3_objects := (s3_objects w)((bucket, key) \<mapsto> content)\<rparr>)))"

text \<open>
  The client is made before the \<open>try\<close>: an exception of \<open>boto3.client\<close> leaves the function
  as it is. The upload and the \<open>print\<close> after it are inside: an exception of either is
  re-raised as a \<open>ValueError\<close> with the exception as its context. When it is the \<open>print\<close>
  that fails, the object is already stored.
\<close>

definition uploading_error :: "exc \<Rightarrow> exc" where
  "uploading_error e =
     Exc ValueError (''An error occurred while uploading the file: '' @ exc_str e) None (Some e)"

definition upload_csv_to_s3 ::
  "string \<Rightarrow> string \<Rightarrow> string \<Rightarrow> string option \<Rightarrow> string option \<Rightarrow> string \<Rightarrow> world
   \<Rightarrow> (exc + unit) \<times> world" where
  "upload_csv_to_s3 file_path bucket_name s3_folder aws_access_key_id aws_secret_access_key
                    aws_region w =
     (case boto3_client_fault w aws_access_key_id aws_secret_access_key aws_region of
        Some e \<Rightarrow> (Inl e, w)
      | None \<Rightarrow>
          (let csv_file_name = last (split_chr backslash file_path);
               object = s3_folder @ ''/'' @ csv_file_name
           in case upload_file w file_path bucket_name object of
                (Inl e, w') \<Rightarrow> (Inl (uploading_error e), w')
              | (Inr u, w') \<Rightarrow>
                  (case print_line (''File '' @ [CHR 0x27] @ file_path @ [CHR 0x27]
                                    @ '' uploaded successfully to bucket '' @ bucket_name @ ''.'')
                                   w'
                   of
                     (Inl e, w'') \<Rightarrow> (Inl (uploading_error e), w'')
                   | (Inr u', w'') \<Rightarrow> (Inr (), w''))))"

section \<open>A POSIX platform and example worlds\<close>

text \<open>
  \<open>os.path\<close> on a POSIX platform (\<open>posixpath\<close>): \<open>join\<close> of two components, \<open>isabs\<close>, and
  \<open>basename\<close>, which cuts after the last slash found by \<open>rfind\<close>.
\<close>

definition posix_join :: "string \<Rightarrow> string \<Rightarrow> string" where
  "posix_join a b =
     (if b \<noteq> [] \<and> hd b = CHR ''/'' then b
      else if a = [] \<or> last a = CHR ''/'' then a @ b
      else a @ ''/'' @ b)"

definition posix_isabs :: "string \<Rightarrow> bool" where
  "posix_isabs s = (s \<noteq> [] \<and> hd s = CHR ''/'')"

definition rfind_chr :: "char \<Rightarrow> string \<Rightarrow> int" where
  "rfind_chr c s =
     (if c \<in> set s then int (length s) - 1 - int (length (takeWhile (\<lambda>x. x \<noteq> c) (rev s)))
      else - 1)"

definition posix_basename :: "string \<Rightarrow> string" where
  "posix_basename p = drop (nat (rfind_chr (CHR ''/'') p + 1)) p"

text \<open>
  A writer for tables of plain strings (no comma, quote or line break in any cell), where
  pandas writes the header and the rows as they are, comma-separated, one per line.
\<close>

fun join_with :: "string \<Rightarrow> string list \<Rightarrow> string" where
  "join_with sep [] = []"
| "join_with sep [x] = x"
| "join_with sep (x # y # ys) = x @ sep @ join_with sep (y # ys)"

fun plain_cell :: "pyval option \<Rightarrow> string" where
  "plain_cell (Some (PStr s)) = s"
| "plain_cell c = []"

definition plain_csv :: "dataframe \<Rightarrow> string" where
  "plain_csv d =
     concat (map (\<lambda>line. join_with '','' line @ [CHR 0x0A])
                 (columns d # map (map plain_cell) (rows d)))"

text \<open>
  A world on 1 May 2024 with two directories, one relative and one absolute, no file, an
  exchange that answers the example trades, a store that accepts every upload, and a client
  constructor that refuses credentials of which only one is given.
\<close>

definition example_world :: world where
  "example_world =
     \<lparr>today = \<lparr>year = 2024, month = 5, day = 1\<rparr>,
      os_path_isdir = (\<lambda>p. p = ''data'' \<or> p = ''/srv/data''),
      os_path_join = posix_join,
      to_csv_text = plain_csv,
      to_csv_fault = (\<lambda>d p. None),
      files = (\<lambda>p. None),
      stdout = [],
      print_fault = (\<lambda>line. None),
      requests_get = (\<lambda>u. Inr \<lparr>status_code = 200, reason = ''OK'', url = u,
                                 json = Inr (PList example_trades)\<rparr>),
      requests_sent = [],
      boto3_client_fault =
        (\<lambda>k s r. if k \<noteq> None \<and> s = None then
                    Some (Exc (OtherError ''PartialCredentialsError'')
                       ''Partial credentials found in explicit, missing: aws_secret_access_key''
                       None None)
                  else None),
      upload_fault = (\<lambda>f b k. None),
      no_such_file = (\<lambda>f. Exc (OtherError ''FileNotFoundError'')
                              ''[Errno 2] No such file or directory'' None None),
      s3_objects = (\<lambda>k. None)\<rparr>"

text \<open>
  On columns of strings pandas infers the dtype \<open>object\<close> and keeps every value as it is;
  \<open>object_pandas\<close> is the library as far as such columns go.
\<close>

definition object_pandas :: pandas where
  "object_pandas = \<lparr>infer_dtype = (\<lambda>slots. ''object''), cast = (\<lambda>dtype v. v)\<rparr>"

definition example_table :: dataframe where
  "example_table = pd_DataFrame object_pandas example_trades"

definition other_table :: dataframe where
  "other_table =
     pd_DataFrame object_pandas [PDict [(''price'', PStr ''102''), (''qty'', PStr ''3'')]]"

text \<open>Records with an int beside a missing key, and with a null.\<close>

definition uneven_trades :: "pyval list" where
  "uneven_trades =
     [PDict [(''price'', PStr ''100''), (''qty'', PInt 2)],
      PDict [(''price'', PNone)]]"

text \<open>
  The library as far as \<open>uneven_trades\<close> goes: an int column with a missing slot becomes
  \<open>float64\<close>, and the int its float.
\<close>

definition float_pandas :: pandas where
  "float_pandas =
     \<lparr>infer_dtype = (\<lambda>slots. if Some (PInt 2) \<in> set slots then ''float64'' else ''object''),
      cast = (\<lambda>dtype v. case v of PInt i \<Rightarrow> if dtype = ''float64'' then PFloat (of_int i) else v
                                  | _ \<Rightarrow> v)\<rparr>"

text \<open>An answer of the exchange to the request for the BTC-BRL trades.\<close>

definition example_response :: "nat \<Rightarrow> string \<Rightarrow> exc + pyval \<Rightarrow> response" where
  "example_response code text body =
     \<lparr>status_code = code, reason = text,
      url = ''https://api.mercadobitcoin.net/api/v4/BTC-BRL/trades'', json = body\<rparr>"

text \<open>The exchange answers 200 with a body that is not JSON.\<close>

definition not_json :: exc where
  "not_json = Exc (RequestsError ''JSONDecodeError'') ''Expecting value: line 1 column 1 (char 0)'' None None"

definition html_world :: world where
  "html_world = example_world
     \<lparr>requests_get := (\<lambda>u. Inr \<lparr>status_code = 200, reason = ''OK'', url = u,
                                 json = Inl not_json\<rparr>)\<rparr>"

text \<open>The exchange answers 503; and the network is down.\<close>

definition busy_world :: world where
  "busy_world = example_world
     \<lparr>requests_get := (\<lambda>u. Inr \<lparr>status_code = 503, reason = ''Service Unavailable'', url = u,
                                 json = Inl not_json\<rparr>)\<rparr>"

definition refused :: exc where
  "refused = Exc (RequestsError ''ConnectionError'') ''Connection refused'' None None"

definition offline_world :: world where
  "offline_world = example_world\<lparr>requests_get := (\<lambda>u. Inl refused)\<rparr>"

text \<open>
  Failures outside the requests family: the URL parser of urllib3 gives up before a request
  is made; and the body of a 200 answer is nested too deep for the decoder.
\<close>

definition unparsed :: exc where
  "unparsed = Exc (OtherError ''LocationParseError'') ''Failed to parse'' None None"

definition odd_world :: world where
  "odd_world = example_world\<lparr>requests_get := (\<lambda>u. Inl unparsed)\<rparr>"

definition too_deep :: exc where
  "too_deep = Exc (OtherError ''RecursionError'')
                  ''maximum recursion depth exceeded while decoding a JSON array'' None None"

definition deep_world :: world where
  "deep_world = example_world
     \<lparr>requests_get := (\<lambda>u. Inr \<lparr>status_code = 200, reason = ''OK'', url = u,
                                 json = Inl too_deep\<rparr>)\<rparr>"

text \<open>Standard output cannot encode any line.\<close>

definition unprintable :: exc where
  "unprintable = Exc (OtherError ''UnicodeEncodeError'')
                     ''codec can't encode character'' None None"

definition mute_world :: world where
  "mute_world = example_world\<lparr>print_fault := (\<lambda>line. Some unprintable)\<rparr>"

text \<open>The disk refuses every write and leaves nothing at the path.\<close>

definition denied :: exc where
  "denied = Exc (OtherError ''PermissionError'') ''[Errno 13] Permission denied'' None None"

definition readonly_world :: world where
  "readonly_world = example_world\<lparr>to_csv_fault := (\<lambda>d p. Some (denied, None))\<rparr>"

text \<open>The archive file is on disk; and the store then refuses the upload.\<close>

definition saved_world :: world where
  "saved_world = example_world
     \<lparr>files := [''/srv/data/api_trades_2024-05-01.csv'' \<mapsto> plain_csv example_table]\<rparr>"

definition no_bucket :: exc where
  "no_bucket = Exc (OtherError ''S3UploadFailedError'')
                   ''Failed to upload: NoSuchBucket'' None None"

definition closed_world :: world where
  "closed_world = saved_world\<lparr>upload_fault := (\<lambda>f b k. Some no_bucket)\<rparr>"

section \<open>Properties of the Table Builder\<close>

lemma set_first_seen: "set (first_seen ks) = set ks"
  by (induction ks) auto

lemma distinct_first_seen: "distinct (first_seen ks)"
  by (induction ks) (auto simp: set_first_seen)

lemma add_keys_first_seen:
  "add_keys acc ks = acc @ filter (\<lambda>x. x \<notin> set acc) (first_seen ks)"
proof (induction ks arbitrary: acc)
  case Nil
  show ?case by simp
next
  case (Cons k ks)
  show ?case
  proof (cases "k \<in> set acc")
    case True
    have "filter (\<lambda>x. x \<notin> set acc) (filter (\<lambda>x. x \<noteq> k) (first_seen ks))
          = filter (\<lambda>x. x \<notin> set acc) (first_seen ks)"
      using True by (auto intro: filter_cong)
    with True Cons.IH [of acc] show ?thesis by simp
  next
    case False
    have "filter (\<lambda>x. x \<notin> set (acc @ [k])) (first_seen ks)
          = filter (\<lambda>x. x \<notin> set acc) (filter (\<lambda>x. x \<noteq> k) (first_seen ks))"
      by (auto intro: filter_cong)
    with False Cons.IH [of "acc @ [k]"] show ?thesis by simp
  qed
qed

lemma first_seen_append:
  "first_seen (xs @ ys) = first_seen xs @ filter (\<lambda>x. x \<notin> set xs) (first_seen ys)"
proof (induction xs)
  case Nil
  show ?case by simp
next
  case (Cons x xs)
  have "filter (\<lambda>y. y \<noteq> x) (filter (\<lambda>y. y \<notin> set xs) (first_seen ys))
        = filter (\<lambda>y. y \<notin> set (x # xs)) (first_seen ys)"
    by (auto intro: filter_cong)
  with Cons show ?case by simp
qed

lemma first_seen_distinct: "distinct xs \<Longrightarrow> first_seen xs = xs"
proof (induction xs)
  case Nil
  show ?case by simp
next
  case (Cons x xs)
  then have "filter (\<lambda>y. y \<noteq> x) xs = xs"
    by (auto intro: filter_True)
  with Cons show ?case by simp
qed

lemma fast_unique_first_seen:
  "distinct acc \<Longrightarrow>
   fast_unique_multiple_list_gen acc gen = first_seen (acc @ concat gen)"
proof (induction gen arbitrary: acc)
  case Nil
  then show ?case by (simp add: first_seen_distinct)
next
  case (Cons buf gen)
  let ?acc = "add_keys acc buf"
  have eq: "?acc = first_seen (acc @ buf)"
    using Cons.prems
    by (simp add: add_keys_first_seen first_seen_append first_seen_distinct)
  have d: "distinct ?acc" by (simp add: eq distinct_first_seen)
  have s: "set ?acc = set (acc @ buf)" by (simp only: eq set_first_seen)
  have "first_seen (?acc @ concat gen)
        = ?acc @ filter (\<lambda>x. x \<notin> set ?acc) (first_seen (concat gen))"
    by (simp only: first_seen_append first_seen_distinct [OF d])
  also have "\<dots> = first_seen (acc @ buf)
                  @ filter (\<lambda>x. x \<notin> set (acc @ buf)) (first_seen (concat gen))"
    by (simp only: s) (simp only: eq)
  also have "\<dots> = first_seen ((acc @ buf) @ concat gen)"
    by (simp only: first_seen_append)
  finally have "first_seen (?acc @ concat gen) = first_seen (acc @ buf @ concat gen)"
    by simp
  with Cons.IH [OF d] show ?case by simp
qed

lemma columns_pd_DataFrame:
  "columns (pd_DataFrame pd ds) = first_seen (concat (map dict_keys ds))"
  by (simp add: pd_DataFrame_def Let_def fast_unique_first_seen)

lemma map_zip_map:
  "map (\<lambda>(c, s). h c s) (zip cols (map f cols)) = map (\<lambda>c. h c (f c)) cols"
  by (induction cols) simp_all

lemma rows_pd_DataFrame:
  "rows (pd_DataFrame pd ds)
   = map (\<lambda>d. map (\<lambda>c. convert_cell pd (infer_dtype pd (column_slots ds c)) (dict_get d c))
                 (columns (pd_DataFrame pd ds))) ds"
  by (simp add: pd_DataFrame_def Let_def convert_object_array_def dicts_to_array_def
                map_zip_map)

text \<open>
  Claim C1. For every list of dicts, the Table Builder returns a table with one row per
  input record, in the input's order, each row with one cell per column; its columns are the
  keys of all the records, each once, in the order in which the keys are first seen; and
  the cell of row \<open>i\<close> under a column is null when record \<open>i\<close> lacks that key (or holds
  \<open>None\<close> for it), and otherwise is the value record \<open>i\<close> holds for the key, cast to the
  dtype pandas infers for the column.
\<close>

theorem generate_dataframe_table:
  assumes "list_all isinstance_dict ds"
  shows "\<exists>df. generate_dataframe pd (PList ds) = Inr df
          \<and> length (rows df) = length ds
          \<and> set (columns df) = (\<Union>d \<in> set ds. set (dict_keys d))
          \<and> distinct (columns df)
          \<and> columns df = first_seen (concat (map dict_keys ds))
          \<and> (\<forall>i < length ds. length (rows df ! i) = length (columns df))
          \<and> (\<forall>i < length ds. \<forall>j < length (columns df).
                (dict_get (ds ! i) (columns df ! j) = None \<longrightarrow> rows df ! i ! j = None)
              \<and> (dict_get (ds ! i) (columns df ! j) = Some PNone \<longrightarrow> rows df ! i ! j = None)
              \<and> (\<forall>v. dict_get (ds ! i) (columns df ! j) = Some v \<and> v \<noteq> PNone \<longrightarrow>
                     rows df ! i ! j
                     = Some (cast pd (infer_dtype pd (map (\<lambda>d. dict_get d (columns df ! j)) ds))
                                  v)))"
proof -
  let ?df = "pd_DataFrame pd ds"
  have g: "generate_dataframe pd (PList ds) = Inr ?df"
    using assms by (simp add: generate_dataframe_def)
  have n: "length (rows ?df) = length ds"
    by (simp add: rows_pd_DataFrame)
  have c: "columns ?df = first_seen (concat (map dict_keys ds))"
    by (rule columns_pd_DataFrame)
  have u: "set (columns ?df) = (\<Union>d \<in> set ds. set (dict_keys d))"
    by (simp add: c set_first_seen)
  have d: "distinct (columns ?df)"
    by (simp add: c distinct_first_seen)
  have l: "\<forall>i < length ds. length (rows ?df ! i) = length (columns ?df)"
    by (simp add: rows_pd_DataFrame)
  have cell: "rows ?df ! i ! j
              = convert_cell pd (infer_dtype pd (map (\<lambda>d. dict_get d (columns ?df ! j)) ds))
                  (dict_get (ds ! i) (columns ?df ! j))"
    if "i < length ds" "j < length (columns ?df)" for i j
    using that by (simp add: rows_pd_DataFrame column_slots_def)
  have r: "\<forall>i < length ds. \<forall>j < length (columns ?df).
                (dict_get (ds ! i) (columns ?df ! j) = None \<longrightarrow> rows ?df ! i ! j = None)
              \<and> (dict_get (ds ! i) (columns ?df ! j) = Some PNone \<longrightarrow> rows ?df ! i ! j = None)
              \<and> (\<forall>v. dict_get (ds ! i) (columns ?df ! j) = Some v \<and> v \<noteq> PNone \<longrightarrow>
                     rows ?df ! i ! j
                     = Some (cast pd (infer_dtype pd (map (\<lambda>d. dict_get d (columns ?df ! j)) ds))
                                  v))"
  proof (intro allI impI conjI)
    fix i j
    assume "i < length ds" "j < length (columns ?df)"
    note e = cell [OF this]
    { assume "dict_get (ds ! i) (columns ?df ! j) = None"
      then show "rows ?df ! i ! j = None" by (simp add: e convert_cell_def) }
    { assume "dict_get (ds ! i) (columns ?df ! j) = Some PNone"
      then show "rows ?df ! i ! j = None" by (simp add: e convert_cell_def) }
    { fix v
      assume "dict_get (ds ! i) (columns ?df ! j) = Some v \<and> v \<noteq> PNone"
      then show "rows ?df ! i ! j
                 = Some (cast pd (infer_dtype pd (map (\<lambda>d. dict_get d (columns ?df ! j)) ds)) v)"
        by (cases v) (simp_all add: e convert_cell_def) }
  qed
  from g n u d c l r show ?thesis by blast
qed

theorem generate_dataframe_table_witness:
  "list_all isinstance_dict uneven_trades
   \<and> (\<exists>df. generate_dataframe float_pandas (PList uneven_trades) = Inr df
          \<and> length (rows df) = 2
          \<and> columns df = [''price'', ''qty'']
          \<and> length (rows df ! 0) = 2 \<and> length (rows df ! 1) = 2
          \<and> rows df ! 0 ! 0 = Some (PStr ''100'')
          \<and> rows df ! 0 ! 1 = Some (PFloat 2)
          \<and> rows df ! 1 ! 0 = None
          \<and> rows df ! 1 ! 1 = None)"
proof -
  have h: "list_all isinstance_dict uneven_trades"
    by (simp add: uneven_trades_def)
  from generate_dataframe_table [OF h, of float_pandas] obtain df where
    g: "generate_dataframe float_pandas (PList uneven_trades) = Inr df"
    and n: "length (rows df) = length uneven_trades"
    and c: "columns df = first_seen (concat (map dict_keys uneven_trades))"
    and l: "\<forall>i < length uneven_trades. length (rows df ! i) = length (columns df)"
    and r: "\<forall>i < length uneven_trades. \<forall>j < length (columns df).
              (dict_get (uneven_trades ! i) (columns df ! j) = None \<longrightarrow> rows df ! i ! j = None)
            \<and> (dict_get (uneven_trades ! i) (columns df ! j) = Some PNone
                 \<longrightarrow> rows df ! i ! j = None)
            \<and> (\<forall>v. dict_get (uneven_trades ! i) (columns df ! j) = Some v \<and> v \<noteq> PNone \<longrightarrow>
                   rows df ! i ! j
                   = Some (cast float_pandas
                             (infer_dtype float_pandas
                                (map (\<lambda>d. dict_get d (columns df ! j)) uneven_trades)) v))"
    by blast
  have n2: "length uneven_trades = 2"
    by (simp add: uneven_trades_def)
  have c2: "columns df = [''price'', ''qty'']"
    by (simp add: c uneven_trades_def dict_keys_def)
  have i0: "(0::nat) < length uneven_trades" and i1: "(1::nat) < length uneven_trades"
    by (simp_all add: n2)
  have j0: "(0::nat) < length (columns df)" and j1: "(1::nat) < length (columns df)"
    by (simp_all add: c2)
  have k00: "dict_get (uneven_trades ! 0) (columns df ! 0) = Some (PStr ''100'')"
    and k01: "dict_get (uneven_trades ! 0) (columns df ! 1) = Some (PInt 2)"
    and k10: "dict_get (uneven_trades ! 1) (columns df ! 0) = Some PNone"
    and k11: "dict_get (uneven_trades ! 1) (columns df ! 1) = None"
    by (simp_all add: c2 uneven_trades_def dict_get_def)
  have t0: "cast float_pandas
              (infer_dtype float_pandas (map (\<lambda>d. dict_get d (columns df ! 0)) uneven_trades))
              (PStr ''100'') = PStr ''100''"
    by (simp add: float_pandas_def)
  have t1: "cast float_pandas
              (infer_dtype float_pandas (map (\<lambda>d. dict_get d (columns df ! 1)) uneven_trades))
              (PInt 2) = PFloat 2"
    by (simp add: float_pandas_def c2 uneven_trades_def dict_get_def)
  have c00: "rows df ! 0 ! 0 = Some (PStr ''100'')"
    using r i0 j0 k00 t0 by (metis pyval.distinct(7))
  have c01: "rows df ! 0 ! 1 = Some (PFloat 2)"
    using r i0 j1 k01 t1 by (metis pyval.distinct(3))
  have c10: "rows df ! 1 ! 0 = None"
    using r i1 j0 k10 by blast
  have c11: "rows df ! 1 ! 1 = None"
    using r i1 j1 k11 by blast
  have l0: "length (rows df ! 0) = 2" and l1: "length (rows df ! 1) = 2"
    using l i0 i1 by (simp_all add: c2)
  from h g n n2 c2 l0 l1 c00 c01 c10 c11 show ?thesis by auto
qed

text \<open>
  Claim C2. The Table Builder fails exactly when its input is not a list or some element
  of the list is not a dict, and then the error it raises is a \<open>ValueError\<close> (the
  specification's \<open>InputShapeError\<close>); on every list of dicts it returns a table.
\<close>

theorem generate_dataframe_fails_iff:
  "((\<exists>e. generate_dataframe pd v = Inl e) \<longleftrightarrow> \<not> list_of_dicts v)
   \<and> ((\<exists>df. generate_dataframe pd v = Inr df) \<longleftrightarrow> list_of_dicts v)
   \<and> (\<forall>e. generate_dataframe pd v = Inl e \<longrightarrow> exc_class e = ValueError)"
  by (cases v) (auto simp: generate_dataframe_def list_of_dicts_def)

theorem generate_dataframe_fails_iff_witness:
  "\<not> list_of_dicts (PDict [(''price'', PStr ''100'')])
   \<and> (\<exists>e. generate_dataframe object_pandas (PDict [(''price'', PStr ''100'')]) = Inl e
          \<and> exc_class e = ValueError)
   \<and> \<not> list_of_dicts (PList [PDict [(''price'', PStr ''100'')], PStr ''x''])
   \<and> (\<exists>e. generate_dataframe object_pandas
             (PList [PDict [(''price'', PStr ''100'')], PStr ''x'']) = Inl e
          \<and> exc_class e = ValueError)
   \<and> list_of_dicts (PList example_trades)
   \<and> (\<exists>df. generate_dataframe object_pandas (PList example_trades) = Inr df)"
proof -
  have a: "\<not> list_of_dicts (PDict [(''price'', PStr ''100'')])"
    by (simp add: list_of_dicts_def)
  have b: "\<not> list_of_dicts (PList [PDict [(''price'', PStr ''100'')], PStr ''x''])"
    by (simp add: list_of_dicts_def)
  have c: "list_of_dicts (PList example_trades)"
    by (simp add: list_of_dicts_def example_trades_def)
  show ?thesis
    using a b c
      generate_dataframe_fails_iff [of object_pandas "PDict [(''price'', PStr ''100'')]"]
      generate_dataframe_fails_iff
        [of object_pandas "PList [PDict [(''price'', PStr ''100'')], PStr ''x'']"]
      generate_dataframe_fails_iff [of object_pandas "PList example_trades"]
    by blast
qed

text \<open>
  Claim C8. On the empty list the Table Builder raises nothing and returns the table with
  no row and no column.
\<close>

theorem generate_dataframe_empty:
  "generate_dataframe pd (PList []) = Inr \<lparr>columns = [], rows = []\<rparr>"
  by (simp add: generate_dataframe_def pd_DataFrame_def)

section \<open>Strings, paths and dates\<close>

lemma split_chr_not_Nil: "split_chr c s \<noteq> []"
  by (induction s) (auto split: list.splits)

lemma split_chr_single: "split_chr c s = [p] \<Longrightarrow> p = s"
proof (induction s arbitrary: p)
  case Nil
  then show ?case by simp
next
  case (Cons x xs)
  then show ?case
    using split_chr_not_Nil [of c xs]
    by (auto split: if_splits list.splits)
qed

lemma last_split_chr_no_sep: "c \<notin> set (last (split_chr c s))"
  using split_chr_not_Nil [of c]
  by (induction s) (auto split: list.splits)

lemma last_split_chr_suffix:
  "\<exists>pre. s = pre @ last (split_chr c s)
         \<and> (if length (split_chr c s) = 1 then pre = [] else pre \<noteq> [] \<and> last pre = c)"
proof (induction s)
  case Nil
  show ?case by simp
next
  case (Cons x xs)
  then obtain pre where xs: "xs = pre @ last (split_chr c xs)"
    and pre: "if length (split_chr c xs) = 1 then pre = [] else pre \<noteq> [] \<and> last pre = c"
    by blast
  obtain piece pieces where sp: "split_chr c xs = piece # pieces"
    using split_chr_not_Nil [of c xs] by (cases "split_chr c xs") auto
  show ?case
  proof (cases "x = c")
    case True
    have "x # xs = (x # pre) @ last (split_chr c (x # xs))"
      using True xs sp by simp
    moreover have "last (x # pre) = c"
      using True pre sp by (auto split: if_splits)
    ultimately show ?thesis
      using True sp by (intro exI [of _ "x # pre"]) auto
  next
    case False
    show ?thesis
    proof (cases "pieces = []")
      case True
      then have "piece = xs" using sp split_chr_single by blast
      then show ?thesis using False True sp by (intro exI [of _ "[]"]) simp
    next
      case ne: False
      have "x # xs = (x # pre) @ last (split_chr c (x # xs))"
        using False xs sp ne by simp
      moreover have "pre \<noteq> [] \<and> last pre = c"
        using pre sp ne by (auto split: if_splits)
      ultimately show ?thesis
        using False sp ne by (intro exI [of _ "x # pre"]) auto
    qed
  qed
qed

lemma strftime_example: "strftime_Ymd \<lparr>year = 2024, month = 5, day = 1\<rparr> = ''2024-05-01''"
  by code_simp

lemma archive_filename_example: "archive_filename example_world = ''api_trades_2024-05-01.csv''"
  by code_simp

lemma posix_join_isabs: "posix_isabs a \<Longrightarrow> posix_isabs (posix_join a b)"
  by (auto simp: posix_isabs_def posix_join_def)

lemma posix_join_isabs_iff:
  assumes "b \<noteq> []" and "hd b \<noteq> CHR ''/''"
  shows "posix_isabs (posix_join a b) \<longleftrightarrow> posix_isabs a"
  using assms by (cases a) (auto simp: posix_isabs_def posix_join_def)

lemma archive_filename_relative:
  "archive_filename w \<noteq> [] \<and> hd (archive_filename w) \<noteq> CHR ''/''"
  by (simp add: archive_filename_def)

section \<open>Properties of the Table Persister\<close>

text \<open>
  Claim C10. When the first argument is not a table, or the destination is not an existing
  directory, the Table Persister raises a \<open>ValueError\<close> and leaves the world as it found
  it: no file is written and nothing is printed.
\<close>

theorem dataframe_to_csv_invalid_unchanged:
  assumes "\<not> isinstance_DataFrame df \<or> \<not> os_path_isdir w csv_path"
  shows "\<exists>e. dataframe_to_csv df csv_path w = (Inl e, w) \<and> exc_class e = ValueError"
  using assms by (auto simp: dataframe_to_csv_def)

theorem dataframe_to_csv_invalid_unchanged_witness:
  "\<not> isinstance_DataFrame (ValueObj (PList example_trades))
   \<and> (\<exists>e. dataframe_to_csv (ValueObj (PList example_trades)) ''data'' example_world
             = (Inl e, example_world) \<and> exc_class e = ValueError)
   \<and> \<not> os_path_isdir example_world ''nowhere''
   \<and> (\<exists>e. dataframe_to_csv (DataFrameObj example_table) ''nowhere'' example_world
             = (Inl e, example_world) \<and> exc_class e = ValueError)"
proof -
  have a: "\<not> isinstance_DataFrame (ValueObj (PList example_trades))"
    by simp
  have b: "\<not> os_path_isdir example_world ''nowhere''"
    by (simp add: example_world_def)
  show ?thesis
    using a b
      dataframe_to_csv_invalid_unchanged
        [of "ValueObj (PList example_trades)" example_world "''data''"]
      dataframe_to_csv_invalid_unchanged
        [of "DataFrameObj example_table" example_world "''nowhere''"]
    by blast
qed

text \<open>
  Claim C7. For a destination that is not an existing directory the Table Persister fails
  with a \<open>ValueError\<close> (the specification's \<open>DestinationError\<close>). When the write itself
  fails with an exception \<open>e\<close>, it fails with a \<open>ValueError\<close> whose text names the file path
  and carries the text of \<open>e\<close>, and whose context is \<open>e\<close>.
\<close>

theorem dataframe_to_csv_destination_error:
  "(\<not> os_path_isdir w csv_path \<longrightarrow>
      (\<exists>e. fst (dataframe_to_csv df csv_path w) = Inl e \<and> exc_class e = ValueError))
   \<and> (os_path_isdir w csv_path
        \<and> to_csv_fault w d (os_path_join w csv_path (archive_filename w)) = Some (e, residue)
      \<longrightarrow> fst (dataframe_to_csv (DataFrameObj d) csv_path w)
            = Inl (Exc ValueError
                     (''Error while saving the data on '' @ [CHR 0x27]
                      @ os_path_join w csv_path (archive_filename w) @ [CHR 0x27]
                      @ '': '' @ exc_str e)
                     None (Some e)))"
  by (auto simp: dataframe_to_csv_def Let_def saving_error_def)

theorem dataframe_to_csv_destination_error_witness:
  "\<not> os_path_isdir example_world ''nowhere''
   \<and> (\<exists>e. fst (dataframe_to_csv (DataFrameObj example_table) ''nowhere'' example_world) = Inl e
          \<and> exc_class e = ValueError)
   \<and> os_path_isdir readonly_world ''data''
   \<and> to_csv_fault readonly_world example_table
        (os_path_join readonly_world ''data'' (archive_filename readonly_world))
       = Some (denied, None)
   \<and> fst (dataframe_to_csv (DataFrameObj example_table) ''data'' readonly_world)
       = Inl (Exc ValueError
                (''Error while saving the data on '' @ [CHR 0x27]
                 @ os_path_join readonly_world ''data'' (archive_filename readonly_world)
                 @ [CHR 0x27] @ '': '' @ exc_str denied)
                None (Some denied))"
proof -
  have a: "\<not> os_path_isdir example_world ''nowhere''"
    by (simp add: example_world_def)
  have b: "os_path_isdir readonly_world ''data''"
    by (simp add: readonly_world_def example_world_def)
  have c: "to_csv_fault readonly_world example_table
             (os_path_join readonly_world ''data'' (archive_filename readonly_world))
           = Some (denied, None)"
    by (simp add: readonly_world_def)
  show ?thesis
    using a b c
      dataframe_to_csv_destination_error
        [of example_world "''nowhere''" "DataFrameObj example_table"]
      dataframe_to_csv_destination_error
        [of readonly_world "''data''" _ example_table denied None]
    by blast
qed

lemma dataframe_to_csv_success:
  assumes "os_path_isdir w dir"
    and "to_csv_fault w d (os_path_join w dir (archive_filename w)) = None"
    and "print_fault w (''DataFrame successfully saved to ''
                        @ os_path_join w dir (archive_filename w)) = None"
  shows "dataframe_to_csv (DataFrameObj d) dir w
         = (Inr (os_path_join w dir (archive_filename w)),
            w\<lparr>files := (files w)(os_path_join w dir (archive_filename w) \<mapsto> to_csv_text w d),
              stdout := stdout w @ [''DataFrame successfully saved to ''
                                    @ os_path_join w dir (archive_filename w)]\<rparr>)"
  using assms by (simp add: dataframe_to_csv_def Let_def print_line_def)

text \<open>
  When the write succeeds and the \<open>print\<close> after it raises, the Table Persister fails
  with the wrapped error although the file is written.
\<close>

lemma dataframe_to_csv_print_fails:
  assumes "os_path_isdir w dir"
    and "to_csv_fault w d (os_path_join w dir (archive_filename w)) = None"
    and "print_fault w (''DataFrame successfully saved to ''
                        @ os_path_join w dir (archive_filename w)) = Some e"
  shows "dataframe_to_csv (DataFrameObj d) dir w
         = (Inl (saving_error (os_path_join w dir (archive_filename w)) e),
            w\<lparr>files := (files w)(os_path_join w dir (archive_filename w) \<mapsto> to_csv_text w d)\<rparr>)"
  using assms by (simp add: dataframe_to_csv_def Let_def print_line_def)

text \<open>
  Claim C3, as the code has it. When the destination is an existing directory, the write
  succeeds and the confirmation line is printed, the Table Persister returns
  \<open>os.path.join\<close> of the directory and the file name \<open>api_trades_<YYYY-MM-DD>.csv\<close> of the
  current date, and the file at that path holds the table's text. A second call on the same
  date with the same directory returns the same path, and the file then holds the second
  table's text alone. The path is the directory joined with the name, not made absolute: with
  the \<open>join\<close> of a POSIX platform it is absolute exactly when the directory is.
\<close>

theorem dataframe_to_csv_same_day:
  assumes "p = os_path_join w dir (''api_trades_'' @ strftime_Ymd (today w) @ ''.csv'')"
    and "os_path_isdir w dir"
    and "to_csv_fault w d1 p = None"
    and "to_csv_fault w d2 p = None"
    and "print_fault w (''DataFrame successfully saved to '' @ p) = None"
  shows "\<exists>w1 w2. dataframe_to_csv (DataFrameObj d1) dir w = (Inr p, w1)
            \<and> files w1 p = Some (to_csv_text w d1)
            \<and> today w1 = today w
            \<and> dataframe_to_csv (DataFrameObj d2) dir w1 = (Inr p, w2)
            \<and> files w2 p = Some (to_csv_text w d2)
            \<and> (os_path_join w = posix_join \<longrightarrow> (posix_isabs p \<longleftrightarrow> posix_isabs dir))"
proof -
  define w1 where "w1 = w\<lparr>files := (files w)(p \<mapsto> to_csv_text w d1),
                          stdout := stdout w @ [''DataFrame successfully saved to '' @ p]\<rparr>"
  define w2 where "w2 = w1\<lparr>files := (files w1)(p \<mapsto> to_csv_text w1 d2),
                           stdout := stdout w1 @ [''DataFrame successfully saved to '' @ p]\<rparr>"
  have p: "p = os_path_join w dir (archive_filename w)"
    using assms(1) by (simp add: archive_filename_def)
  have r1: "dataframe_to_csv (DataFrameObj d1) dir w = (Inr p, w1)"
    using dataframe_to_csv_success [of w dir d1] assms(2,3,5) by (simp add: p w1_def)
  have p1: "os_path_join w1 dir (archive_filename w1) = p"
    by (simp add: w1_def p archive_filename_def)
  have d1: "os_path_isdir w1 dir"
    using assms(2) by (simp add: w1_def)
  have c1: "to_csv_fault w1 d2 (os_path_join w1 dir (archive_filename w1)) = None"
    using assms(4) by (simp only: p1) (simp add: w1_def)
  have q1: "print_fault w1 (''DataFrame successfully saved to ''
                            @ os_path_join w1 dir (archive_filename w1)) = None"
    using assms(5) by (simp only: p1) (simp add: w1_def)
  have r2: "dataframe_to_csv (DataFrameObj d2) dir w1 = (Inr p, w2)"
    using dataframe_to_csv_success [OF d1 c1 q1] by (simp only: p1 w2_def)
  have f1: "files w1 p = Some (to_csv_text w d1)"
    by (simp add: w1_def)
  have f2: "files w2 p = Some (to_csv_text w d2)"
    by (simp add: w2_def w1_def)
  have t: "today w1 = today w"
    by (simp add: w1_def)
  have a: "os_path_join w = posix_join \<longrightarrow> (posix_isabs p \<longleftrightarrow> posix_isabs dir)"
    using posix_join_isabs_iff [of "archive_filename w" dir] archive_filename_relative [of w]
    by (simp add: p)
  from r1 f1 t r2 f2 a show ?thesis by blast
qed

lemma example_world_path:
  "os_path_join example_world ''/srv/data''
     (''api_trades_'' @ strftime_Ymd (today example_world) @ ''.csv'')
   = ''/srv/data/api_trades_2024-05-01.csv''"
  by code_simp

theorem dataframe_to_csv_same_day_witness:
  "os_path_isdir example_world ''/srv/data''
   \<and> to_csv_fault example_world example_table ''/srv/data/api_trades_2024-05-01.csv'' = None
   \<and> to_csv_fault example_world other_table ''/srv/data/api_trades_2024-05-01.csv'' = None
   \<and> print_fault example_world
        (''DataFrame successfully saved to '' @ ''/srv/data/api_trades_2024-05-01.csv'') = None
   \<and> os_path_join example_world = posix_join
   \<and> (\<exists>w1 w2.
        dataframe_to_csv (DataFrameObj example_table) ''/srv/data'' example_world
          = (Inr ''/srv/data/api_trades_2024-05-01.csv'', w1)
        \<and> files w1 ''/srv/data/api_trades_2024-05-01.csv''
            = Some (to_csv_text example_world example_table)
        \<and> dataframe_to_csv (DataFrameObj other_table) ''/srv/data'' w1
            = (Inr ''/srv/data/api_trades_2024-05-01.csv'', w2)
        \<and> files w2 ''/srv/data/api_trades_2024-05-01.csv''
            = Some (to_csv_text example_world other_table)
        \<and> (posix_isabs ''/srv/data/api_trades_2024-05-01.csv'' \<longleftrightarrow> posix_isabs ''/srv/data''))"
proof -
  have a: "os_path_isdir example_world ''/srv/data''"
    by (simp add: example_world_def)
  have b: "to_csv_fault example_world example_table ''/srv/data/api_trades_2024-05-01.csv'' = None"
    by (simp add: example_world_def)
  have c: "to_csv_fault example_world other_table ''/srv/data/api_trades_2024-05-01.csv'' = None"
    by (simp add: example_world_def)
  have d: "print_fault example_world
             (''DataFrame successfully saved to '' @ ''/srv/data/api_trades_2024-05-01.csv'')
           = None"
    by (simp add: example_world_def)
  have j: "os_path_join example_world = posix_join"
    by (simp add: example_world_def)
  from dataframe_to_csv_same_day [OF example_world_path [symmetric] a b c d] j a b c d
  show ?thesis by blast
qed

text \<open>
  Claim C3 as stated fails: handed the existing relative directory \<open>data\<close>, the Table
  Persister writes the file and returns \<open>data/api_trades_2024-05-01.csv\<close>, which is not an
  absolute path.
\<close>

theorem dataframe_to_csv_relative_path:
  "os_path_isdir example_world ''data''
   \<and> fst (dataframe_to_csv (DataFrameObj example_table) ''data'' example_world)
       = Inr ''data/api_trades_2024-05-01.csv''
   \<and> \<not> posix_isabs ''data/api_trades_2024-05-01.csv''"
  by code_simp

section \<open>Properties of the Remote Uploader\<close>

lemma upload_csv_to_s3_success:
  assumes "boto3_client_fault w k s r = None"
    and "upload_fault w file_path bucket (folder @ ''/'' @ last (split_chr backslash file_path)) = None"
    and "files w file_path = Some content"
    and "print_fault w (''File '' @ [CHR 0x27] @ file_path @ [CHR 0x27]
                        @ '' uploaded successfully to bucket '' @ bucket @ ''.'') = None"
  shows "upload_csv_to_s3 file_path bucket folder k s r w
         = (Inr (),
            w\<lparr>s3_objects := (s3_objects w)
                 ((bucket, folder @ ''/'' @ last (split_chr backslash file_path)) \<mapsto> content),
              stdout := stdout w @ [''File '' @ [CHR 0x27] @ file_path @ [CHR 0x27]
                        @ '' uploaded successfully to bucket '' @ bucket @ ''.'']\<rparr>)"
  using assms by (simp add: upload_csv_to_s3_def upload_file_def Let_def print_line_def)

text \<open>
  Claim C4, as the code has it. When the client is constructed, the upload succeeds and the
  confirmation line is printed, the Remote Uploader returns and the file's content is stored
  in the bucket under the key \<open><folder>/<name>\<close>, where \<open>name\<close> is
  what follows the last backslash of the local file path (the whole path when it has no
  backslash); no other object of the store changes.
\<close>

theorem upload_csv_to_s3_key:
  assumes "name = last (split_chr backslash file_path)"
    and "boto3_client_fault w k s r = None"
    and "upload_fault w file_path bucket (folder @ ''/'' @ name) = None"
    and "files w file_path = Some content"
    and "print_fault w (''File '' @ [CHR 0x27] @ file_path @ [CHR 0x27]
                        @ '' uploaded successfully to bucket '' @ bucket @ ''.'') = None"
  shows "\<exists>w'. upload_csv_to_s3 file_path bucket folder k s r w = (Inr (), w')
          \<and> s3_objects w' (bucket, folder @ ''/'' @ name) = Some content
          \<and> (\<forall>other. other \<noteq> (bucket, folder @ ''/'' @ name)
                \<longrightarrow> s3_objects w' other = s3_objects w other)
          \<and> backslash \<notin> set name
          \<and> (\<exists>pre. file_path = pre @ name \<and> (pre = [] \<or> last pre = backslash))"
proof -
  have n: "backslash \<notin> set name"
    by (simp add: assms(1) last_split_chr_no_sep)
  obtain pre where pre: "file_path = pre @ name"
    "if length (split_chr backslash file_path) = 1 then pre = []
     else pre \<noteq> [] \<and> last pre = backslash"
    using last_split_chr_suffix [of file_path backslash] assms(1) by blast
  then have s: "\<exists>pre. file_path = pre @ name \<and> (pre = [] \<or> last pre = backslash)"
    by (cases "length (split_chr backslash file_path) = 1") auto
  have u: "upload_fault w file_path bucket
             (folder @ ''/'' @ last (split_chr backslash file_path)) = None"
    using assms(1,3) by simp
  note r = upload_csv_to_s3_success [OF assms(2) u assms(4) assms(5)]
  show ?thesis
    using n s by (simp add: r assms(1))
qed

theorem upload_csv_to_s3_key_witness:
  "''x.csv'' = last (split_chr backslash (''C:'' @ [backslash] @ ''data'' @ [backslash] @ ''x.csv''))
   \<and> print_fault (example_world\<lparr>files := [''C:'' @ [backslash] @ ''data'' @ [backslash] @ ''x.csv''
                                            \<mapsto> ''price,qty'']\<rparr>)
        (''File '' @ [CHR 0x27] @ (''C:'' @ [backslash] @ ''data'' @ [backslash] @ ''x.csv'')
         @ [CHR 0x27] @ '' uploaded successfully to bucket '' @ ''mercadobitcoin-api'' @ ''.'')
       = None
   \<and> (\<exists>w'. upload_csv_to_s3 (''C:'' @ [backslash] @ ''data'' @ [backslash] @ ''x.csv'')
              ''mercadobitcoin-api'' ''trades'' (Some ''id'') (Some ''secret'') ''us-east-1''
              (example_world\<lparr>files := [''C:'' @ [backslash] @ ''data'' @ [backslash] @ ''x.csv''
                                          \<mapsto> ''price,qty'']\<rparr>)
            = (Inr (), w')
          \<and> s3_objects w' (''mercadobitcoin-api'', ''trades'' @ ''/'' @ ''x.csv'')
              = Some ''price,qty'')"
proof -
  let ?p = "''C:'' @ [backslash] @ ''data'' @ [backslash] @ ''x.csv''"
  let ?w = "example_world\<lparr>files := [?p \<mapsto> ''price,qty'']\<rparr>"
  have a: "''x.csv'' = last (split_chr backslash ?p)"
    by code_simp
  have b: "boto3_client_fault ?w (Some ''id'') (Some ''secret'') ''us-east-1'' = None"
    by (simp add: example_world_def)
  have c: "upload_fault ?w ?p ''mercadobitcoin-api'' (''trades'' @ ''/'' @ ''x.csv'') = None"
    by (simp add: example_world_def)
  have d: "files ?w ?p = Some ''price,qty''"
    by simp
  have e: "print_fault ?w (''File '' @ [CHR 0x27] @ ?p @ [CHR 0x27]
             @ '' uploaded successfully to bucket '' @ ''mercadobitcoin-api'' @ ''.'') = None"
    by (simp add: example_world_def)
  from upload_csv_to_s3_key [OF a b c d e] a e show ?thesis by blast
qed

text \<open>
  Claim C4 as stated fails: for the POSIX path \<open>/srv/data/api_trades_2024-05-01.csv\<close>,
  whose basename is \<open>api_trades_2024-05-01.csv\<close>, the upload succeeds and the object is
  stored under \<open>trades//srv/data/api_trades_2024-05-01.csv\<close>; nothing is stored under
  \<open>trades/api_trades_2024-05-01.csv\<close>.
\<close>

theorem upload_csv_to_s3_not_basename:
  "posix_basename ''/srv/data/api_trades_2024-05-01.csv'' = ''api_trades_2024-05-01.csv''
   \<and> fst (upload_csv_to_s3 ''/srv/data/api_trades_2024-05-01.csv'' ''mercadobitcoin-api''
            ''trades'' (Some ''id'') (Some ''secret'') ''us-east-1'' saved_world) = Inr ()
   \<and> s3_objects (snd (upload_csv_to_s3 ''/srv/data/api_trades_2024-05-01.csv''
            ''mercadobitcoin-api'' ''trades'' (Some ''id'') (Some ''secret'') ''us-east-1''
            saved_world))
       (''mercadobitcoin-api'', ''trades/api_trades_2024-05-01.csv'') = None
   \<and> s3_objects (snd (upload_csv_to_s3 ''/srv/data/api_trades_2024-05-01.csv''
            ''mercadobitcoin-api'' ''trades'' (Some ''id'') (Some ''secret'') ''us-east-1''
            saved_world))
       (''mercadobitcoin-api'', ''trades//srv/data/api_trades_2024-05-01.csv'')
     = Some (plain_csv example_table)"
  by code_simp

text \<open>
  An exception raised by the upload call, or by the \<open>print\<close> after it, is re-raised as a
  \<open>ValueError\<close> whose text carries the text of the failure and whose context is the failure.
\<close>

lemma upload_csv_to_s3_upload_error_wrapped:
  assumes "boto3_client_fault w k s r = None"
    and "fst (upload_file w file_path bucket
                (folder @ ''/'' @ last (split_chr backslash file_path))) = Inl e"
  shows "fst (upload_csv_to_s3 file_path bucket folder k s r w)
         = Inl (Exc ValueError (''An error occurred while uploading the file: '' @ exc_str e)
                    None (Some e))"
  using assms
  by (auto simp: upload_csv_to_s3_def Let_def uploading_error_def split: prod.splits sum.splits)

lemma upload_csv_to_s3_client_error:
  assumes "boto3_client_fault w k s r = Some e"
  shows "upload_csv_to_s3 file_path bucket folder k s r w = (Inl e, w)"
  using assms by (simp add: upload_csv_to_s3_def)

text \<open>
  Claim C5. Every failure of the object-storage client during the Remote Uploader's run,
  whether raised while the client is constructed or by the upload call, should leave the
  function as a \<open>ValueError\<close> (the specification's \<open>UploadError\<close>) wrapping it. The code
  does not do this for the constructor, which it calls before its \<open>try\<close>: with an access key
  id and no secret key (\<open>os.getenv\<close> returns \<open>None\<close> for a variable that is not set)
  \<open>boto3.client\<close> raises \<open>PartialCredentialsError\<close>, and the Remote Uploader fails with
  that exception itself, unwrapped, having uploaded and printed nothing.
\<close>

theorem upload_csv_to_s3_client_error_unwrapped:
  "upload_csv_to_s3 ''/srv/data/api_trades_2024-05-01.csv'' ''mercadobitcoin-api''
          ''trades'' (Some ''id'') None ''us-east-1'' saved_world
   = (Inl (Exc (OtherError ''PartialCredentialsError'')
            ''Partial credentials found in explicit, missing: aws_secret_access_key''
            None None), saved_world)"
  by (simp add: upload_csv_to_s3_def saved_world_def example_world_def)

section \<open>Properties of the Trade Fetcher\<close>

lemma raise_for_status_None:
  "raise_for_status resp = None \<longleftrightarrow> \<not> (400 \<le> status_code resp \<and> status_code resp < 600)"
  by (auto simp: raise_for_status_def)

lemma raise_for_status_HTTPError:
  "raise_for_status resp = Some e \<Longrightarrow> exc_class e = RequestsError ''HTTPError''"
  by (auto simp: raise_for_status_def split: if_splits)

text \<open>
  Claim C6, as the code has it. The Trade Fetcher sends exactly one GET, to
  \<open><base_url>/<symbol>/trades\<close>. It returns the decoded body unchanged exactly when the GET
  answers, the status is not in 400..599 and the body decodes. It fails with a \<open>ValueError\<close>
  (the specification's \<open>DataSourceError\<close>) whose cause is the underlying exception when that
  exception is of the requests family: one the GET raises, the \<open>HTTPError\<close> of a status in
  400..599, and also one the decoding of the body raises after a successful status. An
  exception outside the requests family, raised by the GET or by the decoding, leaves the
  function unchanged.
\<close>

theorem get_api_trades_outcome:
  assumes "target = api_url @ ''/'' @ symbol @ ''/trades''"
  shows "requests_sent (snd (get_api_trades api_url symbol w)) = requests_sent w @ [target]
   \<and> (\<forall>resp v. requests_get w target = Inr resp
          \<and> \<not> (400 \<le> status_code resp \<and> status_code resp < 600) \<and> json resp = Inr v
        \<longrightarrow> fst (get_api_trades api_url symbol w) = Inr v)
   \<and> (\<forall>e. requests_get w target = Inl e \<and> is_RequestException (exc_class e)
        \<longrightarrow> fst (get_api_trades api_url symbol w)
              = Inl (Exc ValueError (''Error during API request: '' @ exc_str e)
                         (Some e) (Some e)))
   \<and> (\<forall>resp. requests_get w target = Inr resp
          \<and> 400 \<le> status_code resp \<and> status_code resp < 600
        \<longrightarrow> (\<exists>e. exc_class e = RequestsError ''HTTPError''
               \<and> fst (get_api_trades api_url symbol w)
                   = Inl (Exc ValueError (''Error during API request: '' @ exc_str e)
                              (Some e) (Some e))))
   \<and> (\<forall>resp e. requests_get w target = Inr resp
          \<and> \<not> (400 \<le> status_code resp \<and> status_code resp < 600)
          \<and> json resp = Inl e \<and> is_RequestException (exc_class e)
        \<longrightarrow> fst (get_api_trades api_url symbol w)
              = Inl (Exc ValueError (''Error during API request: '' @ exc_str e)
                         (Some e) (Some e)))
   \<and> (\<forall>e. requests_get w target = Inl e \<and> \<not> is_RequestException (exc_class e)
        \<longrightarrow> fst (get_api_trades api_url symbol w) = Inl e)
   \<and> (\<forall>resp e. requests_get w target = Inr resp
          \<and> \<not> (400 \<le> status_code resp \<and> status_code resp < 600)
          \<and> json resp = Inl e \<and> \<not> is_RequestException (exc_class e)
        \<longrightarrow> fst (get_api_trades api_url symbol w) = Inl e)
   \<and> ((\<exists>v. fst (get_api_trades api_url symbol w) = Inr v)
        \<longleftrightarrow> (\<exists>resp v. requests_get w target = Inr resp
               \<and> \<not> (400 \<le> status_code resp \<and> status_code resp < 600)
               \<and> json resp = Inr v))"
proof -
  have sent: "requests_sent (snd (get_api_trades api_url symbol w)) = requests_sent w @ [target]"
    unfolding assms by (simp add: get_api_trades_def Let_def split: sum.splits)
  have ok: "fst (get_api_trades api_url symbol w) = Inr v"
    if "requests_get w target = Inr resp"
      "\<not> (400 \<le> status_code resp \<and> status_code resp < 600)" "json resp = Inr v"
    for resp v
    using that raise_for_status_None [of resp]
    unfolding assms by (simp add: get_api_trades_def Let_def)
  have net: "fst (get_api_trades api_url symbol w)
             = Inl (Exc ValueError (''Error during API request: '' @ exc_str e) (Some e) (Some e))"
    if "requests_get w target = Inl e" "is_RequestException (exc_class e)" for e
    using that unfolding assms by (simp add: get_api_trades_def Let_def)
  have http: "\<exists>e. exc_class e = RequestsError ''HTTPError''
                \<and> fst (get_api_trades api_url symbol w)
                    = Inl (Exc ValueError (''Error during API request: '' @ exc_str e)
                               (Some e) (Some e))"
    if "requests_get w target = Inr resp"
      "400 \<le> status_code resp \<and> status_code resp < 600" for resp
  proof -
    from that(2) raise_for_status_None [of resp]
    obtain e where e: "raise_for_status resp = Some e" by auto
    then have c: "exc_class e = RequestsError ''HTTPError''"
      by (rule raise_for_status_HTTPError)
    then have "fst (get_api_trades api_url symbol w)
               = Inl (Exc ValueError (''Error during API request: '' @ exc_str e)
                          (Some e) (Some e))"
      using that(1) e unfolding assms by (simp add: get_api_trades_def Let_def)
    with c show ?thesis by blast
  qed
  have dec: "fst (get_api_trades api_url symbol w)
             = Inl (Exc ValueError (''Error during API request: '' @ exc_str e) (Some e) (Some e))"
    if "requests_get w target = Inr resp"
      "\<not> (400 \<le> status_code resp \<and> status_code resp < 600)"
      "json resp = Inl e" "is_RequestException (exc_class e)" for resp e
    using that raise_for_status_None [of resp]
    unfolding assms by (simp add: get_api_trades_def Let_def)
  have raw: "fst (get_api_trades api_url symbol w) = Inl e"
    if "requests_get w target = Inl e" "\<not> is_RequestException (exc_class e)" for e
    using that unfolding assms by (simp add: get_api_trades_def Let_def)
  have rawdec: "fst (get_api_trades api_url symbol w) = Inl e"
    if "requests_get w target = Inr resp"
      "\<not> (400 \<le> status_code resp \<and> status_code resp < 600)"
      "json resp = Inl e" "\<not> is_RequestException (exc_class e)" for resp e
    using that raise_for_status_None [of resp]
    unfolding assms by (simp add: get_api_trades_def Let_def)
  have iff: "(\<exists>v. fst (get_api_trades api_url symbol w) = Inr v)
        \<longleftrightarrow> (\<exists>resp v. requests_get w target = Inr resp
               \<and> \<not> (400 \<le> status_code resp \<and> status_code resp < 600)
               \<and> json resp = Inr v)"
    unfolding assms
    by (auto simp: get_api_trades_def Let_def raise_for_status_def
             split: sum.splits option.splits if_splits)
  from sent ok net http dec raw rawdec iff show ?thesis by blast
qed

theorem get_api_trades_outcome_witness:
  "''https://api.mercadobitcoin.net/api/v4/BTC-BRL/trades''
     = ''https://api.mercadobitcoin.net/api/v4'' @ ''/'' @ ''BTC-BRL'' @ ''/trades''
   \<and> requests_get example_world ''https://api.mercadobitcoin.net/api/v4/BTC-BRL/trades''
       = Inr (example_response 200 ''OK'' (Inr (PList example_trades)))
   \<and> fst (get_api_trades ''https://api.mercadobitcoin.net/api/v4'' ''BTC-BRL'' example_world)
       = Inr (PList example_trades)
   \<and> requests_sent (snd (get_api_trades ''https://api.mercadobitcoin.net/api/v4'' ''BTC-BRL''
                            example_world))
       = requests_sent example_world @ [''https://api.mercadobitcoin.net/api/v4/BTC-BRL/trades'']
   \<and> requests_get offline_world ''https://api.mercadobitcoin.net/api/v4/BTC-BRL/trades''
       = Inl refused
   \<and> is_RequestException (exc_class refused)
   \<and> fst (get_api_trades ''https://api.mercadobitcoin.net/api/v4'' ''BTC-BRL'' offline_world)
       = Inl (Exc ValueError (''Error during API request: '' @ exc_str refused)
                  (Some refused) (Some refused))
   \<and> requests_get busy_world ''https://api.mercadobitcoin.net/api/v4/BTC-BRL/trades''
       = Inr (example_response 503 ''Service Unavailable'' (Inl not_json))
   \<and> (\<exists>e. exc_class e = RequestsError ''HTTPError''
          \<and> fst (get_api_trades ''https://api.mercadobitcoin.net/api/v4'' ''BTC-BRL'' busy_world)
              = Inl (Exc ValueError (''Error during API request: '' @ exc_str e)
                         (Some e) (Some e)))
   \<and> requests_get html_world ''https://api.mercadobitcoin.net/api/v4/BTC-BRL/trades''
       = Inr (example_response 200 ''OK'' (Inl not_json))
   \<and> is_RequestException (exc_class not_json)
   \<and> fst (get_api_trades ''https://api.mercadobitcoin.net/api/v4'' ''BTC-BRL'' html_world)
       = Inl (Exc ValueError (''Error during API request: '' @ exc_str not_json)
                  (Some not_json) (Some not_json))
   \<and> requests_get odd_world ''https://api.mercadobitcoin.net/api/v4/BTC-BRL/trades''
       = Inl unparsed
   \<and> \<not> is_RequestException (exc_class unparsed)
   \<and> fst (get_api_trades ''https://api.mercadobitcoin.net/api/v4'' ''BTC-BRL'' odd_world)
       = Inl unparsed
   \<and> requests_get deep_world ''https://api.mercadobitcoin.net/api/v4/BTC-BRL/trades''
       = Inr (example_response 200 ''OK'' (Inl too_deep))
   \<and> \<not> is_RequestException (exc_class too_deep)
   \<and> fst (get_api_trades ''https://api.mercadobitcoin.net/api/v4'' ''BTC-BRL'' deep_world)
       = Inl too_deep"
proof -
  let ?t = "''https://api.mercadobitcoin.net/api/v4/BTC-BRL/trades''"
  have t: "?t = ''https://api.mercadobitcoin.net/api/v4'' @ ''/'' @ ''BTC-BRL'' @ ''/trades''"
    by simp
  have g1: "requests_get example_world ?t
            = Inr (example_response 200 ''OK'' (Inr (PList example_trades)))"
    by (simp add: example_world_def example_response_def)
  have g2: "requests_get offline_world ?t = Inl refused"
    by (simp add: offline_world_def)
  have g3: "requests_get busy_world ?t
            = Inr (example_response 503 ''Service Unavailable'' (Inl not_json))"
    by (simp add: busy_world_def example_response_def)
  have g4: "requests_get html_world ?t = Inr (example_response 200 ''OK'' (Inl not_json))"
    by (simp add: html_world_def example_response_def)
  have g5: "requests_get odd_world ?t = Inl unparsed"
    by (simp add: odd_world_def)
  have g6: "requests_get deep_world ?t = Inr (example_response 200 ''OK'' (Inl too_deep))"
    by (simp add: deep_world_def example_response_def)
  have s1: "\<not> (400 \<le> status_code (example_response 200 ''OK'' (Inr (PList example_trades)))
               \<and> status_code (example_response 200 ''OK'' (Inr (PList example_trades))) < 600)"
    "json (example_response 200 ''OK'' (Inr (PList example_trades))) = Inr (PList example_trades)"
    by (simp_all add: example_response_def)
  have s3: "400 \<le> status_code (example_response 503 ''Service Unavailable'' (Inl not_json))
            \<and> status_code (example_response 503 ''Service Unavailable'' (Inl not_json)) < 600"
    by (simp add: example_response_def)
  have s4: "\<not> (400 \<le> status_code (example_response 200 ''OK'' (Inl not_json))
               \<and> status_code (example_response 200 ''OK'' (Inl not_json)) < 600)"
    "json (example_response 200 ''OK'' (Inl not_json)) = Inl not_json"
    by (simp_all add: example_response_def)
  have s6: "\<not> (400 \<le> status_code (example_response 200 ''OK'' (Inl too_deep))
               \<and> status_code (example_response 200 ''OK'' (Inl too_deep)) < 600)"
    "json (example_response 200 ''OK'' (Inl too_deep)) = Inl too_deep"
    by (simp_all add: example_response_def)
  have c2: "is_RequestException (exc_class refused)"
    by (simp add: refused_def)
  have c4: "is_RequestException (exc_class not_json)"
    by (simp add: not_json_def)
  have c5: "\<not> is_RequestException (exc_class unparsed)"
    by (simp add: unparsed_def)
  have c6: "\<not> is_RequestException (exc_class too_deep)"
    by (simp add: too_deep_def)
  note w1 = get_api_trades_outcome [OF t, of example_world]
  note w2 = get_api_trades_outcome [OF t, of offline_world]
  note w3 = get_api_trades_outcome [OF t, of busy_world]
  note w4 = get_api_trades_outcome [OF t, of html_world]
  note w5 = get_api_trades_outcome [OF t, of odd_world]
  note w6 = get_api_trades_outcome [OF t, of deep_world]
  have r1: "fst (get_api_trades ''https://api.mercadobitcoin.net/api/v4'' ''BTC-BRL''
                   example_world) = Inr (PList example_trades)"
    using w1 g1 s1 by blast
  have r1': "requests_sent (snd (get_api_trades ''https://api.mercadobitcoin.net/api/v4''
                                   ''BTC-BRL'' example_world))
             = requests_sent example_world @ [?t]"
    using w1 by blast
  have r2: "fst (get_api_trades ''https://api.mercadobitcoin.net/api/v4'' ''BTC-BRL''
                   offline_world)
            = Inl (Exc ValueError (''Error during API request: '' @ exc_str refused)
                       (Some refused) (Some refused))"
    using w2 g2 c2 by blast
  have r3: "\<exists>e. exc_class e = RequestsError ''HTTPError''
              \<and> fst (get_api_trades ''https://api.mercadobitcoin.net/api/v4'' ''BTC-BRL''
                       busy_world)
                  = Inl (Exc ValueError (''Error during API request: '' @ exc_str e)
                             (Some e) (Some e))"
    using w3 g3 s3 by blast
  have r4: "fst (get_api_trades ''https://api.mercadobitcoin.net/api/v4'' ''BTC-BRL'' html_world)
            = Inl (Exc ValueError (''Error during API request: '' @ exc_str not_json)
                       (Some not_json) (Some not_json))"
    using w4 g4 s4 c4 by blast
  have r5: "fst (get_api_trades ''https://api.mercadobitcoin.net/api/v4'' ''BTC-BRL'' odd_world)
            = Inl unparsed"
    using w5 g5 c5 by blast
  have r6: "fst (get_api_trades ''https://api.mercadobitcoin.net/api/v4'' ''BTC-BRL'' deep_world)
            = Inl too_deep"
    using w6 g6 s6 c6 by blast
  from t g1 r1 r1' g2 c2 r2 g3 r3 g4 c4 r4 g5 c5 r5 g6 c6 r6 show ?thesis by blast
qed

text \<open>
  Claim C6 as stated fails: the GET answers with status 200, so there is neither a
  non-success status nor a network failure, yet the body is not JSON and the Trade Fetcher
  fails with a \<open>ValueError\<close> wrapping the decoding error.
\<close>

theorem get_api_trades_fails_on_success_status:
  "requests_get html_world ''https://api.mercadobitcoin.net/api/v4/BTC-BRL/trades''
     = Inr \<lparr>status_code = 200, reason = ''OK'',
            url = ''https://api.mercadobitcoin.net/api/v4/BTC-BRL/trades'',
            json = Inl not_json\<rparr>
   \<and> fst (get_api_trades ''https://api.mercadobitcoin.net/api/v4'' ''BTC-BRL'' html_world)
       = Inl (Exc ValueError
                ''Error during API request: Expecting value: line 1 column 1 (char 0)''
                (Some not_json) (Some not_json))"
  by (simp add: get_api_trades_def html_world_def example_world_def raise_for_status_def
                not_json_def Let_def)

end
